theory Spec2Isabelle
  imports Main
begin

section \<open>Values of the host language\<close>

text \<open>
  The session module is JavaScript. A thrown value is either one of the string literals
  the module throws itself (\<open>throw "no active session"\<close>) or an exception of the
  engine: a \<open>TypeError\<close> when a property of \<open>null\<close> is read, a
  \<open>ReferenceError\<close> when an identifier resolves to no binding. An \<open>async\<close>
  method that throws yields a rejected promise; a caller that awaits it sees the thrown
  value, so both are a result \<open>Inl e\<close>.
\<close>

datatype error = Thrown string | TypeError | ReferenceError

text \<open>Values that \<open>JSON.stringify\<close> serialises; an object keeps its keys in order.\<close>

datatype json =
    JNull
  | JBool bool
  | JNumber int
  | JString string
  | JArray "json list"
  | JObject "(string \<times> json) list"

text \<open>
  The user object is a collaborator of which the module calls \<open>serialize()\<close> and
  \<open>getPermissions()\<close> only; the record holds what the two calls return.
\<close>

record user =
  serialize :: json
  getPermissions :: "string list"

text \<open>
  A connection is a handle of the transport; the module calls \<open>send(text)\<close> on it
  and nothing else. The calls made are kept in a log, oldest first.
\<close>

type_synonym connection = nat
type_synonym send_log = "(connection \<times> string) list"

section \<open>Session\<close>

text \<open>
  The fields of \<open>class Session\<close>. The source names them with a leading underscore
  (\<open>_id\<close>, \<open>_subscriptions\<close>), written \<open>priv_\<close> here. A field that can
  hold \<open>null\<close> is an option; \<open>priv_subscriptions\<close> is \<open>null\<close> or an array
  of topics.
\<close>

record session =
  priv_id :: string
  priv_dateCreated :: int
  priv_dateLastUsed :: int
  priv_user :: "user option"
  priv_connection :: "connection option"
  priv_subscriptions :: "string list option"

text \<open>
  The constructor. \<open>uuid\<close> is what \<open>uuidv4()\<close> returned and \<open>now\<close> what
  \<open>Math.floor(Date.now() / 1000)\<close> returned at the call.
\<close>

definition Session_new :: "string \<Rightarrow> int \<Rightarrow> session" where
  "Session_new uuid now =
     \<lparr> priv_id = uuid,
       priv_dateCreated = now,
       priv_dateLastUsed = now,
       priv_user = None,
       priv_connection = None,
       priv_subscriptions = None \<rparr>"

definition getIdentifier :: "session \<Rightarrow> string" where
  "getIdentifier s = priv_id s"

definition getCreatedAt :: "session \<Rightarrow> int" where
  "getCreatedAt s = priv_dateCreated s"

definition getUsedAt :: "session \<Rightarrow> int" where
  "getUsedAt s = priv_dateLastUsed s"

definition use :: "int \<Rightarrow> session \<Rightarrow> session" where
  "use now s = s\<lparr>priv_dateLastUsed := now\<rparr>"

definition getConnection :: "session \<Rightarrow> connection option" where
  "getConnection s = priv_connection s"

definition setConnection :: "connection option \<Rightarrow> session \<Rightarrow> session" where
  "setConnection connection s = s\<lparr>priv_connection := connection\<rparr>"

definition setUser :: "user option \<Rightarrow> session \<Rightarrow> session" where
  "setUser u s = s\<lparr>priv_user := u\<rparr>"

definition getUser :: "session \<Rightarrow> user option" where
  "getUser s = priv_user s"

definition getSubscriptions :: "session \<Rightarrow> string list option" where
  "getSubscriptions s = priv_subscriptions s"

text \<open>
  \<open>push\<close>: the envelope is the object literal of the source, serialised by
  \<open>JSON.stringify\<close>, a built-in of the engine that is taken as the parameter
  \<open>stringify\<close>. The session is not changed; the effect is the call of \<open>send\<close>.
\<close>

definition push_envelope :: "string \<Rightarrow> json \<Rightarrow> json" where
  "push_envelope subject message =
     JObject [(''pushMessage'', JBool True), (''subject'', JString subject), (''message'', message)]"

definition Session_push ::
  "(json \<Rightarrow> string) \<Rightarrow> string \<Rightarrow> json \<Rightarrow> session \<Rightarrow> send_log \<Rightarrow> bool \<times> send_log" where
  "Session_push stringify subject message s log =
     (case priv_connection s of
        None \<Rightarrow> (False, log)
      | Some c \<Rightarrow> (True, log @ [(c, stringify (push_envelope subject message))]))"

text \<open>
  The three methods below call a method of \<open>this._subscriptions\<close>
  (\<open>includes\<close>, \<open>push\<close>, \<open>filter\<close>) without a check: on \<open>null\<close> the
  engine throws a \<open>TypeError\<close> before anything is changed.
\<close>

definition Session_pushIfSubscribed ::
  "(json \<Rightarrow> string) \<Rightarrow> string \<Rightarrow> json \<Rightarrow> session \<Rightarrow> send_log \<Rightarrow> (error + bool) \<times> send_log" where
  "Session_pushIfSubscribed stringify subject message s log =
     (case priv_subscriptions s of
        None \<Rightarrow> (Inl TypeError, log)
      | Some subs \<Rightarrow>
          if subject \<in> set subs
          then (let (result, log') = Session_push stringify subject message s log
                in (Inr result, log'))
          else (Inr False, log))"

definition Session_subscribe :: "string \<Rightarrow> session \<Rightarrow> (error + bool) \<times> session" where
  "Session_subscribe subject s =
     (case priv_subscriptions s of
        None \<Rightarrow> (Inl TypeError, s)
      | Some subs \<Rightarrow>
          if subject \<notin> set subs
          then (Inr True, s\<lparr>priv_subscriptions := Some (subs @ [subject])\<rparr>)
          else (Inr False, s))"

definition Session_unsubscribe :: "string \<Rightarrow> session \<Rightarrow> (error + bool) \<times> session" where
  "Session_unsubscribe subject s =
     (case priv_subscriptions s of
        None \<Rightarrow> (Inl TypeError, s)
      | Some subs \<Rightarrow>
          (Inr True, s\<lparr>priv_subscriptions := Some (filter (\<lambda>item. item \<noteq> subject) subs)\<rparr>))"

section \<open>SessionManager\<close>

text \<open>
  Sessions are objects: the manager's array holds references to them, the dispatcher
  hands one of these references (or \<open>null\<close>) to every operation, and
  \<open>===\<close> compares references. A reference is a number, \<open>heap\<close> gives the
  object behind it and \<open>fresh\<close> is the next reference \<open>new Session()\<close> takes.
  \<open>opts_timeout\<close> is \<open>this._opts.timeout\<close> (\<open>null\<close> when no timeout is
  configured, else seconds) and \<open>sessions\<close> is \<open>this.sessions\<close>. The timer that
  calls the sweep every five seconds is outside the model: \<open>SessionManager_priv_gc\<close>
  is one pass, run at the clock value \<open>now\<close>.
\<close>

type_synonym ref = nat

record world =
  heap :: "ref \<Rightarrow> session"
  fresh :: ref
  opts_timeout :: "int option"
  sessions :: "ref list"

text \<open>
  \<open>for (var i in this.sessions) { if (P(this.sessions[i])) { ... return ... } }\<close>:
  the indices are visited in ascending order and the loop is left at the first element
  that passes the test. \<open>scan P xs k\<close> is the index it stops at, counted from \<open>k\<close>.
\<close>

fun scan :: "('a \<Rightarrow> bool) \<Rightarrow> 'a list \<Rightarrow> nat \<Rightarrow> nat option" where
  "scan P [] k = None"
| "scan P (x # xs) k = (if P x then Some k else scan P xs (Suc k))"

text \<open>\<open>xs.splice(i, 1)\<close>: the element at index \<open>i\<close> is taken out.\<close>

definition splice1 :: "nat \<Rightarrow> 'a list \<Rightarrow> 'a list" where
  "splice1 i xs = take i xs @ drop (Suc i) xs"

definition SessionManager_priv_destroySession :: "string \<Rightarrow> world \<Rightarrow> bool \<times> world" where
  "SessionManager_priv_destroySession id' w =
     (case scan (\<lambda>r. getIdentifier (heap w r) = id') (sessions w) 0 of
        Some i \<Rightarrow> (True, w\<lparr>sessions := splice1 i (sessions w)\<rparr>)
      | None \<Rightarrow> (False, w))"

text \<open>
  The sweep. \<open>gc_loop\<close> is the \<open>for\<close> loop with its accumulator
  \<open>sessionsToKeep\<close>, to which \<open>push\<close> appends.
\<close>

fun gc_loop :: "int \<Rightarrow> int \<Rightarrow> (ref \<Rightarrow> session) \<Rightarrow> ref list \<Rightarrow> ref list \<Rightarrow> ref list" where
  "gc_loop now timeout h [] sessionsToKeep = sessionsToKeep"
| "gc_loop now timeout h (r # rs) sessionsToKeep =
     (let unusedSince = now - getUsedAt (h r)
      in gc_loop now timeout h rs
           (if unusedSince < timeout then sessionsToKeep @ [r] else sessionsToKeep))"

definition SessionManager_priv_gc :: "int \<Rightarrow> world \<Rightarrow> world" where
  "SessionManager_priv_gc now w =
     (case opts_timeout w of
        None \<Rightarrow> w
      | Some timeout \<Rightarrow> w\<lparr>sessions := gc_loop now timeout (heap w) (sessions w) []\<rparr>)"

definition SessionManager_getSession :: "string \<Rightarrow> world \<Rightarrow> ref option" where
  "SessionManager_getSession token w =
     (case scan (\<lambda>r. getIdentifier (heap w r) = token) (sessions w) 0 of
        Some i \<Rightarrow> Some (sessions w ! i)
      | None \<Rightarrow> None)"

definition SessionManager_getSessions :: "world \<Rightarrow> ref list" where
  "SessionManager_getSessions w = sessions w"

text \<open>
  The operations registered with the dispatcher take \<open>(session, params)\<close>; the
  argument \<open>params\<close> is left out where the operation does not read it.
\<close>

definition SessionManager_createSession ::
  "string \<Rightarrow> int \<Rightarrow> ref option \<Rightarrow> world \<Rightarrow> string \<times> world" where
  "SessionManager_createSession uuid now session w =
     (let newSession = fresh w;
          w1 = w\<lparr>heap := (heap w)(newSession := Session_new uuid now), fresh := Suc (fresh w)\<rparr>;
          w2 = w1\<lparr>sessions := sessions w1 @ [newSession]\<rparr>
      in (getIdentifier (heap w2 newSession), w2))"

definition SessionManager_destroyCurrentSession ::
  "ref option \<Rightarrow> world \<Rightarrow> (error + bool) \<times> world" where
  "SessionManager_destroyCurrentSession session w =
     (case scan (\<lambda>r. Some r = session) (sessions w) 0 of
        Some i \<Rightarrow> (Inr True, w\<lparr>sessions := splice1 i (sessions w)\<rparr>)
      | None \<Rightarrow> (Inl (Thrown ''Session not found.''), w))"

definition SessionManager_state :: "ref option \<Rightarrow> world \<Rightarrow> error + json" where
  "SessionManager_state session w =
     (case session of
        None \<Rightarrow> Inl (Thrown ''no active session'')
      | Some r \<Rightarrow>
          (let u = getUser (heap w r)
           in Inr (JObject
                [(''user'', case u of Some x \<Rightarrow> serialize x | None \<Rightarrow> JNull),
                 (''permissions'',
                    case u of Some x \<Rightarrow> JArray (map JString (getPermissions x))
                            | None \<Rightarrow> JArray [])])))"

text \<open>
  \<open>listPermissionsForCurrentSession\<close> reads an identifier \<open>user\<close> that is neither
  a parameter nor declared in the function or the module, so it is resolved in the
  global scope. \<open>global_user\<close> is what the global scope holds under that name:
  \<open>None\<close> when it has no such binding (the state of the engine unless the embedding
  program defines one), \<open>Some None\<close> for a binding to \<open>null\<close>, \<open>Some (Some u)\<close>
  for a binding to a user object. The session is only compared with \<open>null\<close>.
\<close>

definition SessionManager_listPermissionsForCurrentSession ::
  "user option option \<Rightarrow> ref option \<Rightarrow> error + string list" where
  "SessionManager_listPermissionsForCurrentSession global_user session =
     (case session of
        None \<Rightarrow> Inl (Thrown ''no active session'')
      | Some r \<Rightarrow>
          (case global_user of
             None \<Rightarrow> Inl ReferenceError
           | Some None \<Rightarrow> Inr []
           | Some (Some u) \<Rightarrow> Inr (getPermissions u)))"

text \<open>
  \<open>subscribe\<close> and \<open>unsubscribe\<close> take a topic or an array of topics (the
  dispatcher has checked the shape) and return a boolean or an array of booleans.
  For an array, the loop calls the session's method once per element, in order; the
  method has no \<open>await\<close>, so each call runs to its end, and changes the session,
  before the next one starts, and leaves a settled promise. \<open>Promise.all\<close> then
  yields the values in order or, when a promise is rejected, the first rejection.
\<close>

datatype params = PString string | PArray "string list"

datatype result = RBool bool | RArray "bool list"

fun Promise_all :: "(error + 'a) list \<Rightarrow> error + 'a list" where
  "Promise_all [] = Inr []"
| "Promise_all (Inl e # ps) = Inl e"
| "Promise_all (Inr v # ps) =
     (case Promise_all ps of Inl e \<Rightarrow> Inl e | Inr vs \<Rightarrow> Inr (v # vs))"

fun subscribe_each :: "string list \<Rightarrow> session \<Rightarrow> (error + bool) list \<times> session" where
  "subscribe_each [] s = ([], s)"
| "subscribe_each (p # ps) s =
     (let (promise, s1) = Session_subscribe p s;
          (promises, s2) = subscribe_each ps s1
      in (promise # promises, s2))"

fun unsubscribe_each :: "string list \<Rightarrow> session \<Rightarrow> (error + bool) list \<times> session" where
  "unsubscribe_each [] s = ([], s)"
| "unsubscribe_each (p # ps) s =
     (let (promise, s1) = Session_unsubscribe p s;
          (promises, s2) = unsubscribe_each ps s1
      in (promise # promises, s2))"

definition SessionManager_subscribe ::
  "ref option \<Rightarrow> params \<Rightarrow> world \<Rightarrow> (error + result) \<times> world" where
  "SessionManager_subscribe session params w =
     (case session of
        None \<Rightarrow> (Inl (Thrown ''no active session''), w)
      | Some r \<Rightarrow>
          (case params of
             PString p \<Rightarrow>
               (let (res, s') = Session_subscribe p (heap w r)
                in (map_sum id RBool res, w\<lparr>heap := (heap w)(r := s')\<rparr>))
           | PArray ps \<Rightarrow>
               (let (promises, s') = subscribe_each ps (heap w r)
                in (map_sum id RArray (Promise_all promises), w\<lparr>heap := (heap w)(r := s')\<rparr>))))"

definition SessionManager_unsubscribe ::
  "ref option \<Rightarrow> params \<Rightarrow> world \<Rightarrow> (error + result) \<times> world" where
  "SessionManager_unsubscribe session params w =
     (case session of
        None \<Rightarrow> (Inl (Thrown ''no active session''), w)
      | Some r \<Rightarrow>
          (case params of
             PString p \<Rightarrow>
               (let (res, s') = Session_unsubscribe p (heap w r)
                in (map_sum id RBool res, w\<lparr>heap := (heap w)(r := s')\<rparr>))
           | PArray ps \<Rightarrow>
               (let (promises, s') = unsubscribe_each ps (heap w r)
                in (map_sum id RArray (Promise_all promises), w\<lparr>heap := (heap w)(r := s')\<rparr>))))"

definition SessionManager_destroySession ::
  "ref option \<Rightarrow> string \<Rightarrow> world \<Rightarrow> (error + bool) \<times> world" where
  "SessionManager_destroySession session params w =
     (let (result, w') = SessionManager_priv_destroySession params w
      in if \<not> result then (Inl (Thrown ''Session not found''), w') else (Inr True, w'))"

section \<open>Session: the subscription container\<close>

text \<open>
  Where the container is an array, the three methods that read it do what the
  specification says of them: \<open>subscribe\<close> reports whether the topic is new and
  leaves it subscribed, \<open>unsubscribe\<close> reports true and leaves it unsubscribed, and
  \<open>pushIfSubscribed\<close> delivers exactly when the topic is subscribed.
\<close>

lemma Session_subscribe_array:
  "priv_subscriptions s = Some subs \<Longrightarrow>
   Session_subscribe t s =
     (Inr (t \<notin> set subs),
      s\<lparr>priv_subscriptions := Some (if t \<in> set subs then subs else subs @ [t])\<rparr>)"
  by (simp add: Session_subscribe_def)

lemma Session_subscribe_twice_array:
  "priv_subscriptions s = Some subs \<Longrightarrow>
   fst (Session_subscribe t (snd (Session_subscribe t s))) = Inr False"
  by (simp add: Session_subscribe_def)

lemma Session_unsubscribe_array:
  "priv_subscriptions s = Some subs \<Longrightarrow>
   Session_unsubscribe t s =
     (Inr True, s\<lparr>priv_subscriptions := Some (filter (\<lambda>item. item \<noteq> t) subs)\<rparr>)"
  by (simp add: Session_unsubscribe_def)

lemma Session_unsubscribe_twice_array:
  "priv_subscriptions s = Some subs \<Longrightarrow>
   Session_unsubscribe t (snd (Session_unsubscribe t s)) = Session_unsubscribe t s"
  by (simp add: Session_unsubscribe_def)

lemma Session_pushIfSubscribed_array:
  "priv_subscriptions s = Some subs \<Longrightarrow>
   Session_pushIfSubscribed stringify t m s log =
     (if t \<in> set subs
      then (Inr (fst (Session_push stringify t m s log)), snd (Session_push stringify t m s log))
      else (Inr False, log))"
  by (simp add: Session_pushIfSubscribed_def split: prod.splits)

text \<open>An array without duplicates stays one under \<open>subscribe\<close> and \<open>unsubscribe\<close>.\<close>

lemma Session_subscribe_keeps_distinct:
  "priv_subscriptions s = Some subs \<Longrightarrow> distinct subs \<Longrightarrow>
   \<exists>subs'. priv_subscriptions (snd (Session_subscribe t s)) = Some subs' \<and> distinct subs'"
  by (simp add: Session_subscribe_def)

lemma Session_unsubscribe_keeps_distinct:
  "priv_subscriptions s = Some subs \<Longrightarrow> distinct subs \<Longrightarrow>
   \<exists>subs'. priv_subscriptions (snd (Session_unsubscribe t s)) = Some subs' \<and> distinct subs'"
  by (simp add: Session_unsubscribe_def)

text \<open>
  C1. The claim: the subscription set of a session is the empty set from construction
  on, never an absent value. The constructor assigns \<open>null\<close>: the container of a new
  session is absent, and no method of the class can replace it, since each of them
  throws on \<open>null\<close> before it assigns.
\<close>

theorem constructor_leaves_subscriptions_null:
  "getSubscriptions (Session_new uuid now) = None \<and>
   getSubscriptions (Session_new uuid now) \<noteq> Some [] \<and>
   getSubscriptions (snd (Session_subscribe t (Session_new uuid now))) = None \<and>
   getSubscriptions (snd (Session_unsubscribe t (Session_new uuid now))) = None"
  by (simp add: getSubscriptions_def Session_new_def Session_subscribe_def
      Session_unsubscribe_def)

text \<open>
  C2. The claim: on a new session \<open>subscribe(t)\<close> returns true, and false the second
  time. On the session the constructor builds, the first call and the second both throw
  a \<open>TypeError\<close> and leave the session as it was.
\<close>

theorem subscribe_on_new_session_throws:
  "Session_subscribe t (Session_new uuid now) = (Inl TypeError, Session_new uuid now) \<and>
   Session_subscribe t (snd (Session_subscribe t (Session_new uuid now)))
     = (Inl TypeError, Session_new uuid now)"
  by (simp add: Session_new_def Session_subscribe_def)

text \<open>
  C3. The claim: \<open>unsubscribe(t)\<close> returns true on every session, a new one included.
  On the session the constructor builds it throws a \<open>TypeError\<close>.
\<close>

theorem unsubscribe_on_new_session_throws:
  "Session_unsubscribe t (Session_new uuid now) = (Inl TypeError, Session_new uuid now)"
  by (simp add: Session_new_def Session_unsubscribe_def)

section \<open>The permissions operation\<close>

text \<open>
  The sibling operation \<open>state\<close> binds \<open>user\<close> to the session's user before it
  reads it, and lists that user's permissions.
\<close>

lemma state_lists_permissions_of_session_user:
  "getUser (heap w r) = Some u \<Longrightarrow>
   SessionManager_state (Some r) w =
     Inr (JObject [(''user'', serialize u),
                   (''permissions'', JArray (map JString (getPermissions u)))])"
  by (simp add: SessionManager_state_def)

text \<open>
  C4. The claim: the permissions operation fails with "no active session" when the
  session is \<open>null\<close> and otherwise returns the session's permissions, with no other
  failure. The first half holds. With a session attached, the operation reads the
  identifier \<open>user\<close>, which it never binds: where the global scope has no binding
  of that name either, it throws a \<open>ReferenceError\<close>, whatever the session is.
\<close>

theorem listPermissions_with_session_throws:
  "SessionManager_listPermissionsForCurrentSession None (Some r) = Inl ReferenceError \<and>
   SessionManager_listPermissionsForCurrentSession g None = Inl (Thrown ''no active session'')"
  by (simp add: SessionManager_listPermissionsForCurrentSession_def)

section \<open>Session: delivery\<close>

text \<open>
  C5. With no connection attached \<open>push\<close> returns false and calls nothing; with a
  connection attached it returns true and calls \<open>send\<close> of that connection once,
  with the serialised envelope \<open>{pushMessage: true, subject, message}\<close>.
\<close>

theorem push_sends_once_iff_connected:
  "(priv_connection s = None \<longrightarrow>
      Session_push stringify topic m s log = (False, log)) \<and>
   (priv_connection s = Some c \<longrightarrow>
      Session_push stringify topic m s log =
        (True, log @ [(c, stringify (JObject
           [(''pushMessage'', JBool True), (''subject'', JString topic), (''message'', m)]))]))"
  by (simp add: Session_push_def push_envelope_def)

text \<open>
  The theorem at a new session, before and after \<open>setConnection\<close>; the serialiser
  is given at the one envelope sent, with the text \<open>JSON.stringify\<close> yields for it.
\<close>

theorem push_sends_once_iff_connected_witness:
  \<open>Session_push
     (\<lambda>j. if j = JObject [(''pushMessage'', JBool True), (''subject'', JString ''t''),
                         (''message'', JNull)]
          then ''{"pushMessage":true,"subject":"t","message":null}'' else [])
     ''t'' JNull (Session_new ''u1'' 100) [] = (False, []) \<and>
   Session_push
     (\<lambda>j. if j = JObject [(''pushMessage'', JBool True), (''subject'', JString ''t''),
                         (''message'', JNull)]
          then ''{"pushMessage":true,"subject":"t","message":null}'' else [])
     ''t'' JNull (setConnection (Some 7) (Session_new ''u1'' 100)) []
     = (True, [(7, ''{"pushMessage":true,"subject":"t","message":null}'')])\<close>
  using
    push_sends_once_iff_connected
      [of \<open>Session_new ''u1'' 100\<close>
          \<open>\<lambda>j. if j = JObject [(''pushMessage'', JBool True), (''subject'', JString ''t''),
                              (''message'', JNull)]
               then ''{"pushMessage":true,"subject":"t","message":null}'' else []\<close>
          \<open>''t''\<close> JNull \<open>[]\<close> 7]
    push_sends_once_iff_connected
      [of \<open>setConnection (Some 7) (Session_new ''u1'' 100)\<close>
          \<open>\<lambda>j. if j = JObject [(''pushMessage'', JBool True), (''subject'', JString ''t''),
                              (''message'', JNull)]
               then ''{"pushMessage":true,"subject":"t","message":null}'' else []\<close>
          \<open>''t''\<close> JNull \<open>[]\<close> 7]
  by (simp add: Session_new_def setConnection_def)

text \<open>
  C6. The claim: \<open>pushIfSubscribed\<close> returns false and delivers nothing when the
  topic is not subscribed, also with a connection present. On the session the
  constructor builds, to which a connection has been attached, no topic is subscribed
  and the call throws a \<open>TypeError\<close> instead of returning false. (Nothing is
  delivered.)
\<close>

theorem pushIfSubscribed_on_new_session_throws:
  "Session_pushIfSubscribed stringify topic m
     (setConnection (Some c) (Session_new uuid now)) log = (Inl TypeError, log)"
  by (simp add: Session_pushIfSubscribed_def setConnection_def Session_new_def)

section \<open>The store: scanning and removal\<close>

text \<open>
  The scan stops nowhere exactly when no element passes the test, and an index it
  stops at is one of the list, of an element that passes the test.
\<close>

lemma scan_None_iff: "scan P xs k = None \<longleftrightarrow> (\<forall>x\<in>set xs. \<not> P x)"
  by (induction xs arbitrary: k) auto

lemma scan_Some_index:
  "scan P xs k = Some j \<Longrightarrow> \<exists>i<length xs. j = k + i \<and> P (xs ! i)"
proof (induction xs arbitrary: k)
  case Nil
  then show ?case by simp
next
  case (Cons x xs)
  show ?case
  proof (cases "P x")
    case True
    with Cons.prems show ?thesis by auto
  next
    case False
    with Cons.prems have "scan P xs (Suc k) = Some j" by simp
    from Cons.IH[OF this] obtain i where "i < length xs" "j = Suc k + i" "P (xs ! i)"
      by blast
    then have "Suc i < length (x # xs) \<and> j = k + Suc i \<and> P ((x # xs) ! Suc i)"
      by simp
    then show ?thesis by blast
  qed
qed

lemma scan_distinct_removeAll:
  "distinct (map f xs) \<Longrightarrow> r \<in> set xs \<Longrightarrow>
   \<exists>i<length xs. scan (\<lambda>x. f x = f r) xs k = Some (k + i) \<and> splice1 i xs = removeAll r xs"
proof (induction xs arbitrary: k)
  case Nil
  then show ?case by simp
next
  case (Cons x xs)
  show ?case
  proof (cases "f x = f r")
    case True
    with Cons.prems have "x = r" by (auto simp: image_iff)
    moreover from Cons.prems \<open>x = r\<close> have "r \<notin> set xs" by auto
    ultimately have "scan (\<lambda>x. f x = f r) (x # xs) k = Some (k + 0) \<and>
        splice1 0 (x # xs) = removeAll r (x # xs)"
      by (simp add: splice1_def)
    then show ?thesis by blast
  next
    case False
    with Cons.prems have in_xs: "r \<in> set xs" and d: "distinct (map f xs)" and ne: "x \<noteq> r"
      by auto
    from Cons.IH[OF d in_xs, of "Suc k"] obtain i where
      i: "i < length xs" "scan (\<lambda>x. f x = f r) xs (Suc k) = Some (Suc k + i)"
         "splice1 i xs = removeAll r xs"
      by blast
    from i False ne have "Suc i < length (x # xs) \<and>
        scan (\<lambda>x. f x = f r) (x # xs) k = Some (k + Suc i) \<and>
        splice1 (Suc i) (x # xs) = removeAll r (x # xs)"
      by (simp add: splice1_def)
    then show ?thesis by blast
  qed
qed

lemma distinct_map_removeAll_other:
  "distinct (map f xs) \<Longrightarrow> r \<in> set xs \<Longrightarrow> x \<in> set (removeAll r xs) \<Longrightarrow> f x \<noteq> f r"
  by (auto simp: distinct_map inj_on_def)

text \<open>
  A session made by \<open>createSession\<close> is the one \<open>getSession\<close> returns for the
  identifier handed out, provided no other session of the store carries that
  identifier.
\<close>

lemma scan_first_hit:
  "scan P xs k = Some j \<Longrightarrow> P (xs ! (j - k)) \<and> j - k < length xs"
  using scan_Some_index[of P xs k j] by auto

lemma createSession_then_getSession:
  assumes "\<forall>r\<in>set (sessions w). r \<noteq> fresh w \<longrightarrow> getIdentifier (heap w r) \<noteq> uuid"
  shows "SessionManager_getSession (fst (SessionManager_createSession uuid now cur w))
           (snd (SessionManager_createSession uuid now cur w)) = Some (fresh w)"
proof -
  let ?h = "(heap w)(fresh w := Session_new uuid now)"
  let ?P = "\<lambda>r. getIdentifier (?h r) = uuid"
  have hit: "?P x \<longleftrightarrow> x = fresh w" if "x \<in> set (sessions w @ [fresh w])" for x
    using that assms by (auto simp: getIdentifier_def Session_new_def)
  have "scan ?P (sessions w @ [fresh w]) 0 \<noteq> None"
    by (simp add: scan_None_iff getIdentifier_def Session_new_def)
  then obtain j where j: "scan ?P (sessions w @ [fresh w]) 0 = Some j" by blast
  from scan_first_hit[OF j] have "?P ((sessions w @ [fresh w]) ! j)"
    and "j < length (sessions w @ [fresh w])" by simp_all
  then have "(sessions w @ [fresh w]) ! j = fresh w"
    using hit[of "(sessions w @ [fresh w]) ! j"] nth_mem by blast
  with j show ?thesis
    by (simp add: SessionManager_getSession_def SessionManager_createSession_def Let_def
        getIdentifier_def Session_new_def)
qed

text \<open>The loop of the sweep keeps, in order, the elements used less than \<open>timeout\<close> ago.\<close>

lemma gc_loop_filter:
  "gc_loop now timeout h rs keep = keep @ filter (\<lambda>r. now - getUsedAt (h r) < timeout) rs"
  by (induction rs arbitrary: keep) (simp_all add: Let_def)

text \<open>
  C7. With a timeout \<open>T\<close> configured, one pass of the sweep at clock value \<open>now\<close>
  keeps exactly the sessions with \<open>now - lastUsedAt < T\<close>, in their order, and
  changes no session; so a session of the store last used at \<open>t0\<close> is kept by a
  pass at \<open>t0 + T - 1\<close> and removed by a pass at \<open>t0 + T + 1\<close>.
\<close>

theorem gc_keeps_exactly_the_recently_used:
  "opts_timeout w = Some T \<Longrightarrow>
     sessions (SessionManager_priv_gc now w)
       = filter (\<lambda>r. now - getUsedAt (heap w r) < T) (sessions w) \<and>
     heap (SessionManager_priv_gc now w) = heap w \<and>
     (r \<in> set (sessions w) \<and> getUsedAt (heap w r) = t0 \<longrightarrow>
        r \<in> set (sessions (SessionManager_priv_gc (t0 + T - 1) w)) \<and>
        r \<notin> set (sessions (SessionManager_priv_gc (t0 + T + 1) w)))"
  by (simp add: SessionManager_priv_gc_def gc_loop_filter)

text \<open>
  The theorem with a timeout of an hour and two sessions, last used at 1000 and at
  2000: the pass at 4599 keeps both, the pass at 4601 removes the first.
\<close>

theorem gc_keeps_exactly_the_recently_used_witness:
  "sessions (SessionManager_priv_gc 4599
      \<lparr>heap = (\<lambda>_. Session_new [] 0)(0 := use 1000 (Session_new ''a'' 900),
                                       1 := use 2000 (Session_new ''b'' 900)),
       fresh = 2, opts_timeout = Some 3600, sessions = [0, 1]\<rparr>) = [0, 1] \<and>
   sessions (SessionManager_priv_gc 4601
      \<lparr>heap = (\<lambda>_. Session_new [] 0)(0 := use 1000 (Session_new ''a'' 900),
                                       1 := use 2000 (Session_new ''b'' 900)),
       fresh = 2, opts_timeout = Some 3600, sessions = [0, 1]\<rparr>) = [1]"
  using
    gc_keeps_exactly_the_recently_used
      [of "\<lparr>heap = (\<lambda>_. Session_new [] 0)(0 := use 1000 (Session_new ''a'' 900),
                                       1 := use 2000 (Session_new ''b'' 900)),
            fresh = 2, opts_timeout = Some 3600, sessions = [0, 1]\<rparr>" 3600 4599 0 1000]
    gc_keeps_exactly_the_recently_used
      [of "\<lparr>heap = (\<lambda>_. Session_new [] 0)(0 := use 1000 (Session_new ''a'' 900),
                                       1 := use 2000 (Session_new ''b'' 900)),
            fresh = 2, opts_timeout = Some 3600, sessions = [0, 1]\<rparr>" 3600 4601 0 1000]
  by (simp add: getUsedAt_def use_def Session_new_def)

text \<open>
  C8. \<open>destroySession\<close> with an id that no session of the store has throws
  "Session not found" and leaves everything as it was. With an id that a session of
  the store has, it returns true and takes exactly one entry out of the store, one
  with that id; where the ids in the store are pairwise distinct (they are UUIDs),
  this is that session, and \<open>getSession\<close> with the id finds nothing afterwards.
\<close>

theorem destroySession_by_id:
  "((\<forall>x\<in>set (sessions w). getIdentifier (heap w x) \<noteq> token) \<longrightarrow>
      SessionManager_destroySession cur token w = (Inl (Thrown ''Session not found''), w)) \<and>
   (r \<in> set (sessions w) \<and> getIdentifier (heap w r) = token \<longrightarrow>
      (\<exists>i<length (sessions w).
         getIdentifier (heap w (sessions w ! i)) = token \<and>
         SessionManager_destroySession cur token w
           = (Inr True, w\<lparr>sessions := take i (sessions w) @ drop (Suc i) (sessions w)\<rparr>))) \<and>
   (r \<in> set (sessions w) \<and> getIdentifier (heap w r) = token \<and>
    distinct (map (\<lambda>x. getIdentifier (heap w x)) (sessions w)) \<longrightarrow>
      SessionManager_destroySession cur token w
        = (Inr True, w\<lparr>sessions := removeAll r (sessions w)\<rparr>) \<and>
      SessionManager_getSession token (w\<lparr>sessions := removeAll r (sessions w)\<rparr>) = None)"
proof (intro conjI impI)
  assume "\<forall>x\<in>set (sessions w). getIdentifier (heap w x) \<noteq> token"
  then have "scan (\<lambda>x. getIdentifier (heap w x) = token) (sessions w) 0 = None"
    by (simp add: scan_None_iff)
  then show "SessionManager_destroySession cur token w = (Inl (Thrown ''Session not found''), w)"
    by (simp add: SessionManager_destroySession_def SessionManager_priv_destroySession_def)
next
  assume "r \<in> set (sessions w) \<and> getIdentifier (heap w r) = token"
  then have "scan (\<lambda>x. getIdentifier (heap w x) = token) (sessions w) 0 \<noteq> None"
    by (auto simp: scan_None_iff)
  then obtain j where j: "scan (\<lambda>x. getIdentifier (heap w x) = token) (sessions w) 0 = Some j"
    by blast
  from scan_Some_index[OF j] have "j < length (sessions w)"
      and "getIdentifier (heap w (sessions w ! j)) = token"
    by auto
  moreover from j have "SessionManager_destroySession cur token w
      = (Inr True, w\<lparr>sessions := take j (sessions w) @ drop (Suc j) (sessions w)\<rparr>)"
    by (simp add: SessionManager_destroySession_def SessionManager_priv_destroySession_def
        splice1_def)
  ultimately show "\<exists>i<length (sessions w).
         getIdentifier (heap w (sessions w ! i)) = token \<and>
         SessionManager_destroySession cur token w
           = (Inr True, w\<lparr>sessions := take i (sessions w) @ drop (Suc i) (sessions w)\<rparr>)"
    by blast
next
  assume a: "r \<in> set (sessions w) \<and> getIdentifier (heap w r) = token \<and>
    distinct (map (\<lambda>x. getIdentifier (heap w x)) (sessions w))"
  then have tok: "getIdentifier (heap w r) = token"
    and d: "distinct (map (\<lambda>x. getIdentifier (heap w x)) (sessions w))"
    and r: "r \<in> set (sessions w)"
    by simp_all
  from scan_distinct_removeAll[OF d r, of 0]
  obtain i where "scan (\<lambda>x. getIdentifier (heap w x) = token) (sessions w) 0 = Some i"
      and "splice1 i (sessions w) = removeAll r (sessions w)"
    unfolding tok by auto
  then show "SessionManager_destroySession cur token w
        = (Inr True, w\<lparr>sessions := removeAll r (sessions w)\<rparr>)"
    by (simp add: SessionManager_destroySession_def SessionManager_priv_destroySession_def)
next
  assume a: "r \<in> set (sessions w) \<and> getIdentifier (heap w r) = token \<and>
    distinct (map (\<lambda>x. getIdentifier (heap w x)) (sessions w))"
  then have tok: "getIdentifier (heap w r) = token"
    and d: "distinct (map (\<lambda>x. getIdentifier (heap w x)) (sessions w))"
    and r: "r \<in> set (sessions w)"
    by simp_all
  have "\<forall>x\<in>set (removeAll r (sessions w)). getIdentifier (heap w x) \<noteq> token"
  proof
    fix x
    assume "x \<in> set (removeAll r (sessions w))"
    from distinct_map_removeAll_other[OF d r this] tok
    show "getIdentifier (heap w x) \<noteq> token" by simp
  qed
  then have "scan (\<lambda>x. getIdentifier (heap w x) = token) (removeAll r (sessions w)) 0 = None"
    by (simp add: scan_None_iff)
  then show "SessionManager_getSession token (w\<lparr>sessions := removeAll r (sessions w)\<rparr>) = None"
    by (simp add: SessionManager_getSession_def)
qed

text \<open>
  The theorem on a store of two sessions with the ids \<open>a\<close> and \<open>b\<close>: an unknown
  id is refused, and after \<open>b\<close> is destroyed it is not found.
\<close>

theorem destroySession_by_id_witness:
  "SessionManager_destroySession None ''zz''
     \<lparr>heap = (\<lambda>_. Session_new [] 0)(0 := Session_new ''a'' 10, 1 := Session_new ''b'' 20),
      fresh = 2, opts_timeout = None, sessions = [0, 1]\<rparr>
     = (Inl (Thrown ''Session not found''),
        \<lparr>heap = (\<lambda>_. Session_new [] 0)(0 := Session_new ''a'' 10, 1 := Session_new ''b'' 20),
         fresh = 2, opts_timeout = None, sessions = [0, 1]\<rparr>) \<and>
   SessionManager_destroySession None ''b''
     \<lparr>heap = (\<lambda>_. Session_new [] 0)(0 := Session_new ''a'' 10, 1 := Session_new ''b'' 20),
      fresh = 2, opts_timeout = None, sessions = [0, 1]\<rparr>
     = (Inr True,
        \<lparr>heap = (\<lambda>_. Session_new [] 0)(0 := Session_new ''a'' 10, 1 := Session_new ''b'' 20),
         fresh = 2, opts_timeout = None, sessions = [0]\<rparr>) \<and>
   SessionManager_getSession ''b''
     \<lparr>heap = (\<lambda>_. Session_new [] 0)(0 := Session_new ''a'' 10, 1 := Session_new ''b'' 20),
      fresh = 2, opts_timeout = None, sessions = [0]\<rparr> = None"
  using
    destroySession_by_id
      [where w = "\<lparr>heap = (\<lambda>_. Session_new [] 0)(0 := Session_new ''a'' 10,
                                                  1 := Session_new ''b'' 20),
                    fresh = 2, opts_timeout = None, sessions = [0, 1]\<rparr>"
         and token = "''zz''" and cur = None and r = 1]
    destroySession_by_id
      [where w = "\<lparr>heap = (\<lambda>_. Session_new [] 0)(0 := Session_new ''a'' 10,
                                                  1 := Session_new ''b'' 20),
                    fresh = 2, opts_timeout = None, sessions = [0, 1]\<rparr>"
         and token = "''b''" and cur = None and r = 1]
  by (simp add: getIdentifier_def Session_new_def)

section \<open>Batches of topics\<close>

text \<open>
  Where the session's container is an array, \<open>subscribe\<close> with an array of topics
  returns one boolean per topic, in order: true exactly for a topic that was neither
  subscribed before the call nor occurs earlier in the array. On an empty container,
  \<open>["a", "b", "a"]\<close> gives \<open>[true, true, false]\<close>.
\<close>

lemma Promise_all_fulfilled: "Promise_all (map (\<lambda>x. Inr (f x)) xs) = Inr (map f xs)"
  by (induction xs) simp_all

lemma subscribe_each_array:
  "priv_subscriptions s = Some subs \<Longrightarrow>
   \<exists>subs'. subscribe_each ts s =
       (map (\<lambda>i. Inr (ts ! i \<notin> set subs \<union> set (take i ts))) [0..<length ts],
        s\<lparr>priv_subscriptions := Some subs'\<rparr>) \<and>
     set subs' = set subs \<union> set ts"
proof (induction ts arbitrary: s subs)
  case Nil
  then have "s = s\<lparr>priv_subscriptions := Some subs\<rparr>" by (cases s) simp
  then show ?case by auto
next
  case (Cons t ts)
  define subs1 where "subs1 = (if t \<in> set subs then subs else subs @ [t])"
  define s1 where "s1 = s\<lparr>priv_subscriptions := Some subs1\<rparr>"
  have first: "Session_subscribe t s = (Inr (t \<notin> set subs), s1)"
    unfolding s1_def subs1_def using Cons.prems by (rule Session_subscribe_array)
  have set1: "set subs1 = insert t (set subs)"
    by (auto simp: subs1_def)
  have "priv_subscriptions s1 = Some subs1"
    by (simp add: s1_def)
  from Cons.IH[OF this] obtain subs' where
    rest: "subscribe_each ts s1 =
        (map (\<lambda>i. Inr (ts ! i \<notin> set subs1 \<union> set (take i ts))) [0..<length ts],
         s1\<lparr>priv_subscriptions := Some subs'\<rparr>)"
    and final: "set subs' = set subs1 \<union> set ts"
    by blast
  have upd: "s1\<lparr>priv_subscriptions := Some subs'\<rparr> = s\<lparr>priv_subscriptions := Some subs'\<rparr>"
    by (simp add: s1_def)
  have "subscribe_each (t # ts) s =
       (map (\<lambda>i. Inr ((t # ts) ! i \<notin> set subs \<union> set (take i (t # ts))))
          [0..<length (t # ts)],
        s\<lparr>priv_subscriptions := Some subs'\<rparr>)"
    by (auto simp add: first rest upd set1 map_upt_Suc simp del: upt_Suc)
  moreover from final set1 have "set subs' = set subs \<union> set (t # ts)"
    by auto
  ultimately show ?case by blast
qed

lemma SessionManager_subscribe_array_in_order:
  "priv_subscriptions (heap w r) = Some subs \<Longrightarrow>
   fst (SessionManager_subscribe (Some r) (PArray ts) w)
     = Inr (RArray (map (\<lambda>i. ts ! i \<notin> set subs \<union> set (take i ts)) [0..<length ts]))"
proof -
  assume "priv_subscriptions (heap w r) = Some subs"
  from subscribe_each_array[OF this, of ts] obtain subs' where
    "subscribe_each ts (heap w r) =
       (map (\<lambda>i. Inr (ts ! i \<notin> set subs \<union> set (take i ts))) [0..<length ts],
        (heap w r)\<lparr>priv_subscriptions := Some subs'\<rparr>)"
    by blast
  then show ?thesis
    by (simp add: SessionManager_subscribe_def Promise_all_fulfilled)
qed

lemma SessionManager_subscribe_aba_on_empty_array:
  "priv_subscriptions (heap w r) = Some [] \<Longrightarrow>
   fst (SessionManager_subscribe (Some r) (PArray [''a'', ''b'', ''a'']) w)
     = Inr (RArray [True, True, False])"
  by (simp add: SessionManager_subscribe_def Session_subscribe_def)

text \<open>
  C9. The claim: \<open>subscribe\<close> with an array of topics returns each element's
  boolean in order, \<open>[true, true, false]\<close> for \<open>["a", "b", "a"]\<close> on a session
  with nothing subscribed. On a session that \<open>createSession\<close> has just made, each
  of the three calls of the session's method is rejected with a \<open>TypeError\<close>, so
  the operation fails with that error and changes nothing.
\<close>

theorem batch_subscribe_on_created_session_throws:
  "SessionManager_subscribe (Some (fresh w)) (PArray [''a'', ''b'', ''a''])
     (snd (SessionManager_createSession uuid now cur w))
   = (Inl TypeError, snd (SessionManager_createSession uuid now cur w))"
  by (simp add: SessionManager_subscribe_def SessionManager_createSession_def Let_def
      Session_subscribe_def Session_new_def)

text \<open>
  C10. \<open>destroyCurrentSession\<close> with \<open>null\<close> for the session: no entry of the
  store is \<open>null\<close>, the scan finds none, and the operation throws
  "Session not found." (not "no active session") and leaves the store as it was.
\<close>

theorem destroyCurrentSession_null_not_found:
  "SessionManager_destroyCurrentSession None w = (Inl (Thrown ''Session not found.''), w) \<and>
   Thrown ''Session not found.'' \<noteq> Thrown ''no active session''"
proof -
  have "scan (\<lambda>r. Some r = None) (sessions w) 0 = None"
    by (simp add: scan_None_iff)
  then show ?thesis
    by (simp add: SessionManager_destroyCurrentSession_def)
qed

end
